theory Spec2Isabelle
  imports Main
begin

section \<open>JavaScript values and plain objects\<close>

text \<open>
  The values that cross this layer: callback arguments (\<open>err\<close>, \<open>data\<close>), option
  values and the \<open>body\<close> of \<open>put\<close>. The layer never reads inside an object, so an
  object is its reference (\<open>JObj r\<close>): two objects are the same value exactly when
  they are the same reference. Numbers are the integers and \<open>NaN\<close>; of a number only
  its truthiness is ever used.
\<close>

datatype jsval =
    Undefined
  | Null
  | JBool bool
  | JNum int
  | JNaN
  | JStr string
  | JObj nat

text \<open>ToBoolean, as the conditional \<open>err ? ... : ...\<close> and the negation \<open>!err\<close> apply it.\<close>

fun truthy :: "jsval \<Rightarrow> bool" where
  "truthy Undefined = False"
| "truthy Null = False"
| "truthy (JBool b) = b"
| "truthy (JNum n) = (n \<noteq> 0)"
| "truthy JNaN = False"
| "truthy (JStr s) = (s \<noteq> [])"
| "truthy (JObj r) = True"

text \<open>
  A plain object (the options, the request parameters) is the map of its own enumerable
  properties. An object literal \<open>{...opts, Bucket: b}\<close> copies the properties of \<open>opts\<close>
  and then writes \<open>Bucket\<close>: it is \<open>opts(''Bucket'' \<mapsto> b)\<close>.
\<close>

type_synonym object = "string \<rightharpoonup> jsval"

text \<open>
  The default parameter \<open>opts = {}\<close>: an omitted (undefined) argument is \<open>None\<close> and
  stands for the empty object.
\<close>

definition default_opts :: "object option \<Rightarrow> object" where
  "default_opts opts = (case opts of None \<Rightarrow> Map.empty | Some given \<Rightarrow> given)"

section \<open>The S3 client and the world it acts on\<close>

text \<open>The nine methods of the SDK client that \<open>bucket.js\<close> calls.\<close>

datatype s3_method =
    createBucket
  | headBucket
  | deleteBucket
  | getBucketLocation
  | getObject
  | headObject
  | putObject
  | deleteObject
  | copyObject

text \<open>
  One invocation of the completion callback: its arguments \<open>(err, data)\<close>. A callback
  invoked with \<open>(err)\<close> alone has \<open>data = Undefined\<close>.
\<close>

type_synonym callback_args = "jsval \<times> jsval"

text \<open>
  What the promise's executor can see of a call to the client: an invocation of the
  callback it handed over, or the call throwing. In \<open>bucket.js\<close> the call to the client
  is the whole body of the executor, so an exception that leaves the call leaves the
  executor. A client object that lacks the method behaves as one whose method throws (a
  \<open>TypeError\<close>).
\<close>

datatype event =
    Callback callback_args
  | Throw jsval

text \<open>
  The client is a parameter: \<open>cl m params s\<close> is what the client does when its method
  \<open>m\<close> is called with the request \<open>params\<close> while the backend is in state \<open>s\<close>: the
  events it causes, in order, and the backend's next state. It may never invoke the
  callback, invoke it once or several times, and throw before, between or after
  invocations.
\<close>

type_synonym 's S3 = "s3_method \<Rightarrow> object \<Rightarrow> 's \<Rightarrow> event list \<times> 's"

text \<open>
  The world: the backend's state, and the requests sent to the client so far (method
  and parameters), oldest first.
\<close>

record 's world =
  backend :: 's
  sent :: "(s3_method \<times> object) list"

definition invoke :: "'s S3 \<Rightarrow> s3_method \<Rightarrow> object \<Rightarrow> 's world \<Rightarrow> event list \<times> 's world" where
  "invoke cl m params w =
     (let (events, s') = cl m params (backend w)
      in (events, \<lparr>backend = s', sent = sent w @ [(m, params)]\<rparr>))"

section \<open>Promises\<close>

text \<open>
  A promise is pending, fulfilled with a value or rejected with a reason. \<open>resolve\<close>
  and \<open>reject\<close> settle a pending promise and leave a settled one as it is. The values
  resolved here (a boolean, nothing, a \<open>Bucket\<close>, the backend's data) are taken not to
  be thenables, so \<open>resolve v\<close> fulfils with \<open>v\<close>.
\<close>

datatype 'a promise =
    Pending
  | Fulfilled 'a
  | Rejected jsval

definition resolve :: "'a \<Rightarrow> 'a promise \<Rightarrow> 'a promise" where
  "resolve v p = (case p of Pending \<Rightarrow> Fulfilled v | _ \<Rightarrow> p)"

definition reject :: "jsval \<Rightarrow> 'a promise \<Rightarrow> 'a promise" where
  "reject e p = (case p of Pending \<Rightarrow> Rejected e | _ \<Rightarrow> p)"

text \<open>
  \<open>new Promise(executor)\<close>, for an executor whose body is a call to the client that
  hands it \<open>callback\<close>. The promise starts pending and each event acts on it in turn: an
  invocation of the callback runs the callback, and an exception that leaves the
  executor rejects the promise with the value thrown, as the constructor does. The
  result is the promise once the client has caused all its events.
\<close>

definition occur :: "(callback_args \<Rightarrow> 'a promise \<Rightarrow> 'a promise) \<Rightarrow> event \<Rightarrow> 'a promise \<Rightarrow> 'a promise" where
  "occur callback ev p = (case ev of Callback args \<Rightarrow> callback args p | Throw e \<Rightarrow> reject e p)"

definition new_Promise :: "(callback_args \<Rightarrow> 'a promise \<Rightarrow> 'a promise) \<Rightarrow> event list \<Rightarrow> 'a promise" where
  "new_Promise callback events = fold (occur callback) events Pending"

section \<open>class Bucket\<close>

record 's Bucket =
  client :: "'s S3"
  bucket :: string

text \<open>\<open>constructor(client, bucket)\<close>\<close>

definition Bucket_constructor :: "'s S3 \<Rightarrow> string \<Rightarrow> 's Bucket" where
  "Bucket_constructor cl bkt = \<lparr>client = cl, bucket = bkt\<rparr>"

text \<open>
  A method takes the receiver \<open>this\<close>, its arguments and the world, and returns the
  promise, the receiver as the method leaves it, and the world.
\<close>

definition Bucket_location :: "'s Bucket \<Rightarrow> object option \<Rightarrow> 's world \<Rightarrow> jsval promise \<times> 's Bucket \<times> 's world" where
  "Bucket_location this opts w =
     (let (events, w') = invoke (client this) getBucketLocation
            ((default_opts opts)(''Bucket'' \<mapsto> JStr (bucket this))) w
      in (new_Promise (\<lambda>(err, data). if truthy err then reject err else resolve data) events,
          this, w'))"

definition Bucket_get :: "'s Bucket \<Rightarrow> string \<Rightarrow> object option \<Rightarrow> 's world \<Rightarrow> jsval promise \<times> 's Bucket \<times> 's world" where
  "Bucket_get this key opts w =
     (let (events, w') = invoke (client this) getObject
            ((default_opts opts)(''Bucket'' \<mapsto> JStr (bucket this), ''Key'' \<mapsto> JStr key)) w
      in (new_Promise (\<lambda>(err, data). if truthy err then reject err else resolve data) events,
          this, w'))"

definition Bucket_has :: "'s Bucket \<Rightarrow> string \<Rightarrow> object option \<Rightarrow> 's world \<Rightarrow> jsval promise \<times> 's Bucket \<times> 's world" where
  "Bucket_has this key opts w =
     (let (events, w') = invoke (client this) headObject
            ((default_opts opts)(''Bucket'' \<mapsto> JStr (bucket this), ''Key'' \<mapsto> JStr key)) w
      in (new_Promise (\<lambda>(err, data). resolve (JBool (\<not> truthy err \<and> data \<noteq> Null))) events,
          this, w'))"

definition Bucket_head :: "'s Bucket \<Rightarrow> string \<Rightarrow> object option \<Rightarrow> 's world \<Rightarrow> jsval promise \<times> 's Bucket \<times> 's world" where
  "Bucket_head this key opts w =
     (let (events, w') = invoke (client this) headObject
            ((default_opts opts)(''Bucket'' \<mapsto> JStr (bucket this), ''Key'' \<mapsto> JStr key)) w
      in (new_Promise (\<lambda>(err, data). if truthy err then reject err else resolve data) events,
          this, w'))"

definition Bucket_put :: "'s Bucket \<Rightarrow> string \<Rightarrow> jsval \<Rightarrow> object option \<Rightarrow> 's world \<Rightarrow> jsval promise \<times> 's Bucket \<times> 's world" where
  "Bucket_put this key body opts w =
     (let (events, w') = invoke (client this) putObject
            ((default_opts opts)(''Bucket'' \<mapsto> JStr (bucket this), ''Key'' \<mapsto> JStr key,
               ''Body'' \<mapsto> body)) w
      in (new_Promise (\<lambda>(err, data). if truthy err then reject err else resolve data) events,
          this, w'))"

definition Bucket_remove :: "'s Bucket \<Rightarrow> string \<Rightarrow> object option \<Rightarrow> 's world \<Rightarrow> jsval promise \<times> 's Bucket \<times> 's world" where
  "Bucket_remove this key opts w =
     (let (events, w') = invoke (client this) deleteObject
            ((default_opts opts)(''Bucket'' \<mapsto> JStr (bucket this), ''Key'' \<mapsto> JStr key)) w
      in (new_Promise (\<lambda>(err, data). if truthy err then reject err else resolve Undefined) events,
          this, w'))"

definition Bucket_copy :: "'s Bucket \<Rightarrow> string \<Rightarrow> string \<Rightarrow> object option \<Rightarrow> 's world \<Rightarrow> jsval promise \<times> 's Bucket \<times> 's world" where
  "Bucket_copy this source target opts w =
     (let (events, w') = invoke (client this) copyObject
            ((default_opts opts)(''Bucket'' \<mapsto> JStr (bucket this), ''Key'' \<mapsto> JStr target,
               ''CopySource'' \<mapsto> JStr (bucket this @ ''/'' @ source))) w
      in (new_Promise (\<lambda>(err, data). if truthy err then reject err else resolve data) events,
          this, w'))"

section \<open>The exported functions\<close>

definition create :: "'s S3 \<Rightarrow> string \<Rightarrow> object option \<Rightarrow> 's world \<Rightarrow> 's Bucket promise \<times> 's world" where
  "create cl bkt opts w =
     (let (events, w') = invoke cl createBucket ((default_opts opts)(''Bucket'' \<mapsto> JStr bkt)) w
      in (new_Promise (\<lambda>(err, data).
            if truthy err then reject err else resolve (Bucket_constructor cl bkt)) events,
          w'))"

definition get :: "'s S3 \<Rightarrow> string \<Rightarrow> object option \<Rightarrow> 's world \<Rightarrow> 's Bucket promise \<times> 's world" where
  "get cl bkt opts w =
     (let (events, w') = invoke cl headBucket ((default_opts opts)(''Bucket'' \<mapsto> JStr bkt)) w
      in (new_Promise (\<lambda>(err, data).
            if truthy err then reject err else resolve (Bucket_constructor cl bkt)) events,
          w'))"

definition has :: "'s S3 \<Rightarrow> string \<Rightarrow> object option \<Rightarrow> 's world \<Rightarrow> jsval promise \<times> 's world" where
  "has cl bkt opts w =
     (let (events, w') = invoke cl headBucket ((default_opts opts)(''Bucket'' \<mapsto> JStr bkt)) w
      in (new_Promise (\<lambda>(err, data). resolve (JBool (\<not> truthy err \<and> data \<noteq> Null))) events,
          w'))"

definition remove :: "'s S3 \<Rightarrow> string \<Rightarrow> object option \<Rightarrow> 's world \<Rightarrow> jsval promise \<times> 's world" where
  "remove cl bkt opts w =
     (let (events, w') = invoke cl deleteBucket ((default_opts opts)(''Bucket'' \<mapsto> JStr bkt)) w
      in (new_Promise (\<lambda>(err, data). if truthy err then reject err else resolve Undefined) events,
          w'))"

section \<open>Clients and worlds for the examples\<close>

text \<open>
  A client over a backend without state that answers every call with the same events,
  and the world before any request.
\<close>

definition answering :: "event list \<Rightarrow> unit S3" where
  "answering events m params s = (events, s)"

definition fresh_world :: "unit world" where
  "fresh_world = \<lparr>backend = (), sent = []\<rparr>"

section \<open>Settling a promise\<close>

lemma resolve_Pending: "resolve v Pending = Fulfilled v"
  by (simp add: resolve_def)

lemma reject_Pending: "reject e Pending = Rejected e"
  by (simp add: reject_def)

lemma resolve_settled: "q \<noteq> Pending \<Longrightarrow> resolve v q = q"
  by (cases q) (simp_all add: resolve_def)

lemma reject_settled: "q \<noteq> Pending \<Longrightarrow> reject e q = q"
  by (cases q) (simp_all add: reject_def)

text \<open>
  Once settled, a promise ignores every later event: later invocations of such a
  callback, and a later exception.
\<close>

lemma occur_settled:
  assumes "\<And>c q. q \<noteq> Pending \<Longrightarrow> cb c q = q" and "p \<noteq> Pending"
  shows "occur cb ev p = p"
  using assms by (cases ev) (simp_all add: occur_def reject_settled)

lemma fold_settled:
  assumes "\<And>c q. q \<noteq> Pending \<Longrightarrow> cb c q = q" and "p \<noteq> Pending"
  shows "fold (occur cb) evs p = p"
  using assms(2) by (induction evs arbitrary: p) (simp_all add: occur_settled assms(1))

lemma new_Promise_Nil: "new_Promise cb [] = Pending"
  by (simp add: new_Promise_def)

lemma new_Promise_Cons:
  assumes "\<And>c q. q \<noteq> Pending \<Longrightarrow> cb c q = q" and "cb c Pending \<noteq> Pending"
  shows "new_Promise cb (Callback c # evs) = cb c Pending"
  using fold_settled [of cb "cb c Pending" evs] assms by (simp add: new_Promise_def occur_def)

lemma new_Promise_Throw:
  assumes "\<And>c q. q \<noteq> Pending \<Longrightarrow> cb c q = q"
  shows "new_Promise cb (Throw e # evs) = Rejected e"
  using fold_settled [of cb "Rejected e" evs] assms
  by (simp add: new_Promise_def occur_def reject_Pending)

text \<open>
  The three callbacks of \<open>bucket.js\<close>: the first event decides, be it an invocation
  of the callback or an exception.
\<close>

lemma settle_data:
  "new_Promise (\<lambda>(err, data). if truthy err then reject err else resolve data) (Callback (err, data) # rest)
     = (if truthy err then Rejected err else Fulfilled data)"
  by (subst new_Promise_Cons)
     (auto simp: resolve_settled reject_settled resolve_Pending reject_Pending)

lemma settle_const:
  "new_Promise (\<lambda>(err, data). if truthy err then reject err else resolve v) (Callback (err, data) # rest)
     = (if truthy err then Rejected err else Fulfilled v)"
  by (subst new_Promise_Cons)
     (auto simp: resolve_settled reject_settled resolve_Pending reject_Pending)

lemma settle_has:
  "new_Promise (\<lambda>(err, data). resolve (JBool (\<not> truthy err \<and> data \<noteq> Null))) (Callback (err, data) # rest)
     = Fulfilled (JBool (\<not> truthy err \<and> data \<noteq> Null))"
  by (subst new_Promise_Cons)
     (auto simp: resolve_settled resolve_Pending)

lemma throw_data:
  "new_Promise (\<lambda>(err, data). if truthy err then reject err else resolve data) (Throw e # rest)
     = Rejected e"
  by (rule new_Promise_Throw) (auto simp: resolve_settled reject_settled)

lemma throw_const:
  "new_Promise (\<lambda>(err, data). if truthy err then reject err else resolve v) (Throw e # rest)
     = Rejected e"
  by (rule new_Promise_Throw) (auto simp: resolve_settled reject_settled)

lemma throw_has:
  "new_Promise (\<lambda>(err, data). resolve (JBool (\<not> truthy err \<and> data \<noteq> Null))) (Throw e # rest)
     = Rejected e"
  by (rule new_Promise_Throw) (auto simp: resolve_settled)

section \<open>What each operation does, in terms of the client's answer\<close>

lemma invoke_eq:
  "invoke cl m params w =
     (fst (cl m params (backend w)),
      \<lparr>backend = snd (cl m params (backend w)), sent = sent w @ [(m, params)]\<rparr>)"
  by (simp add: invoke_def split_beta)

lemma Bucket_location_promise:
  "fst (Bucket_location this opts w) =
     new_Promise (\<lambda>(err, data). if truthy err then reject err else resolve data)
       (fst (client this getBucketLocation
          ((default_opts opts)(''Bucket'' \<mapsto> JStr (bucket this))) (backend w)))"
  by (simp add: Bucket_location_def invoke_eq)

lemma Bucket_get_promise:
  "fst (Bucket_get this key opts w) =
     new_Promise (\<lambda>(err, data). if truthy err then reject err else resolve data)
       (fst (client this getObject
          ((default_opts opts)(''Bucket'' \<mapsto> JStr (bucket this), ''Key'' \<mapsto> JStr key)) (backend w)))"
  by (simp add: Bucket_get_def invoke_eq)

lemma Bucket_has_promise:
  "fst (Bucket_has this key opts w) =
     new_Promise (\<lambda>(err, data). resolve (JBool (\<not> truthy err \<and> data \<noteq> Null)))
       (fst (client this headObject
          ((default_opts opts)(''Bucket'' \<mapsto> JStr (bucket this), ''Key'' \<mapsto> JStr key)) (backend w)))"
  by (simp add: Bucket_has_def invoke_eq)

lemma Bucket_head_promise:
  "fst (Bucket_head this key opts w) =
     new_Promise (\<lambda>(err, data). if truthy err then reject err else resolve data)
       (fst (client this headObject
          ((default_opts opts)(''Bucket'' \<mapsto> JStr (bucket this), ''Key'' \<mapsto> JStr key)) (backend w)))"
  by (simp add: Bucket_head_def invoke_eq)

lemma Bucket_put_promise:
  "fst (Bucket_put this key body opts w) =
     new_Promise (\<lambda>(err, data). if truthy err then reject err else resolve data)
       (fst (client this putObject
          ((default_opts opts)(''Bucket'' \<mapsto> JStr (bucket this), ''Key'' \<mapsto> JStr key,
             ''Body'' \<mapsto> body)) (backend w)))"
  by (simp add: Bucket_put_def invoke_eq)

lemma Bucket_remove_promise:
  "fst (Bucket_remove this key opts w) =
     new_Promise (\<lambda>(err, data). if truthy err then reject err else resolve Undefined)
       (fst (client this deleteObject
          ((default_opts opts)(''Bucket'' \<mapsto> JStr (bucket this), ''Key'' \<mapsto> JStr key)) (backend w)))"
  by (simp add: Bucket_remove_def invoke_eq)

lemma Bucket_copy_promise:
  "fst (Bucket_copy this source target opts w) =
     new_Promise (\<lambda>(err, data). if truthy err then reject err else resolve data)
       (fst (client this copyObject
          ((default_opts opts)(''Bucket'' \<mapsto> JStr (bucket this), ''Key'' \<mapsto> JStr target,
             ''CopySource'' \<mapsto> JStr (bucket this @ ''/'' @ source))) (backend w)))"
  by (simp add: Bucket_copy_def invoke_eq)

lemma create_promise:
  "fst (create cl bkt opts w) =
     new_Promise (\<lambda>(err, data).
         if truthy err then reject err else resolve (Bucket_constructor cl bkt))
       (fst (cl createBucket ((default_opts opts)(''Bucket'' \<mapsto> JStr bkt)) (backend w)))"
  by (simp add: create_def invoke_eq)

lemma get_promise:
  "fst (get cl bkt opts w) =
     new_Promise (\<lambda>(err, data).
         if truthy err then reject err else resolve (Bucket_constructor cl bkt))
       (fst (cl headBucket ((default_opts opts)(''Bucket'' \<mapsto> JStr bkt)) (backend w)))"
  by (simp add: get_def invoke_eq)

lemma has_promise:
  "fst (has cl bkt opts w) =
     new_Promise (\<lambda>(err, data). resolve (JBool (\<not> truthy err \<and> data \<noteq> Null)))
       (fst (cl headBucket ((default_opts opts)(''Bucket'' \<mapsto> JStr bkt)) (backend w)))"
  by (simp add: has_def invoke_eq)

lemma remove_promise:
  "fst (remove cl bkt opts w) =
     new_Promise (\<lambda>(err, data). if truthy err then reject err else resolve Undefined)
       (fst (cl deleteBucket ((default_opts opts)(''Bucket'' \<mapsto> JStr bkt)) (backend w)))"
  by (simp add: remove_def invoke_eq)

text \<open>The requests each operation adds to the world: exactly one.\<close>

lemma Bucket_location_sent:
  "sent (snd (snd (Bucket_location this opts w))) =
     sent w @ [(getBucketLocation, (default_opts opts)(''Bucket'' \<mapsto> JStr (bucket this)))]"
  by (simp add: Bucket_location_def invoke_eq)

lemma Bucket_get_sent:
  "sent (snd (snd (Bucket_get this key opts w))) =
     sent w @ [(getObject,
        (default_opts opts)(''Bucket'' \<mapsto> JStr (bucket this), ''Key'' \<mapsto> JStr key))]"
  by (simp add: Bucket_get_def invoke_eq)

lemma Bucket_has_sent:
  "sent (snd (snd (Bucket_has this key opts w))) =
     sent w @ [(headObject,
        (default_opts opts)(''Bucket'' \<mapsto> JStr (bucket this), ''Key'' \<mapsto> JStr key))]"
  by (simp add: Bucket_has_def invoke_eq)

lemma Bucket_head_sent:
  "sent (snd (snd (Bucket_head this key opts w))) =
     sent w @ [(headObject,
        (default_opts opts)(''Bucket'' \<mapsto> JStr (bucket this), ''Key'' \<mapsto> JStr key))]"
  by (simp add: Bucket_head_def invoke_eq)

lemma Bucket_put_sent:
  "sent (snd (snd (Bucket_put this key body opts w))) =
     sent w @ [(putObject,
        (default_opts opts)(''Bucket'' \<mapsto> JStr (bucket this), ''Key'' \<mapsto> JStr key,
           ''Body'' \<mapsto> body))]"
  by (simp add: Bucket_put_def invoke_eq)

lemma Bucket_remove_sent:
  "sent (snd (snd (Bucket_remove this key opts w))) =
     sent w @ [(deleteObject,
        (default_opts opts)(''Bucket'' \<mapsto> JStr (bucket this), ''Key'' \<mapsto> JStr key))]"
  by (simp add: Bucket_remove_def invoke_eq)

lemma Bucket_copy_sent:
  "sent (snd (snd (Bucket_copy this source target opts w))) =
     sent w @ [(copyObject,
        (default_opts opts)(''Bucket'' \<mapsto> JStr (bucket this), ''Key'' \<mapsto> JStr target,
           ''CopySource'' \<mapsto> JStr (bucket this @ ''/'' @ source)))]"
  by (simp add: Bucket_copy_def invoke_eq)

lemma create_sent:
  "sent (snd (create cl bkt opts w)) =
     sent w @ [(createBucket, (default_opts opts)(''Bucket'' \<mapsto> JStr bkt))]"
  by (simp add: create_def invoke_eq)

lemma get_sent:
  "sent (snd (get cl bkt opts w)) =
     sent w @ [(headBucket, (default_opts opts)(''Bucket'' \<mapsto> JStr bkt))]"
  by (simp add: get_def invoke_eq)

lemma has_sent:
  "sent (snd (has cl bkt opts w)) =
     sent w @ [(headBucket, (default_opts opts)(''Bucket'' \<mapsto> JStr bkt))]"
  by (simp add: has_def invoke_eq)

lemma remove_sent:
  "sent (snd (remove cl bkt opts w)) =
     sent w @ [(deleteBucket, (default_opts opts)(''Bucket'' \<mapsto> JStr bkt))]"
  by (simp add: remove_def invoke_eq)

text \<open>No method assigns to a field of its receiver.\<close>

lemma Bucket_receiver:
  "fst (snd (Bucket_location this opts w)) = this"
  "fst (snd (Bucket_get this key opts w)) = this"
  "fst (snd (Bucket_has this key opts w)) = this"
  "fst (snd (Bucket_head this key opts w)) = this"
  "fst (snd (Bucket_put this key body opts w)) = this"
  "fst (snd (Bucket_remove this key opts w)) = this"
  "fst (snd (Bucket_copy this source target opts w)) = this"
  by (simp_all add: Bucket_location_def Bucket_get_def Bucket_has_def Bucket_head_def
      Bucket_put_def Bucket_remove_def Bucket_copy_def invoke_eq)

section \<open>The copy-entry request\<close>

text \<open>
  C3. On a handle bound to the container identifier \<open>b\<close>, \<open>copy(source, target)\<close>
  sends one copy-entry request; whatever the options, its \<open>CopySource\<close> is the string
  \<open>b\<close>, then \<open>/\<close>, then \<open>source\<close>, its \<open>Key\<close> is \<open>target\<close> and its \<open>Bucket\<close> is \<open>b\<close>.
\<close>

theorem copy_request:
  "Bucket_copy this source target opts w = (p, this', w') \<Longrightarrow>
   \<exists>params. sent w' = sent w @ [(copyObject, params)]
     \<and> params ''CopySource'' = Some (JStr (bucket this @ ''/'' @ source))
     \<and> params ''Key'' = Some (JStr target)
     \<and> params ''Bucket'' = Some (JStr (bucket this))"
  using Bucket_copy_sent [of this source target opts w] by simp

theorem copy_request_witness:
  "\<exists>params.
     sent (snd (snd (Bucket_copy \<lparr>client = answering [Callback (Null, JObj 1)], bucket = ''mine''\<rparr>
       ''a.txt'' ''b.txt'' (Some [''CopySource'' \<mapsto> JStr ''other/z'']) fresh_world)))
       = [(copyObject, params)]
     \<and> params ''CopySource'' = Some (JStr ''mine/a.txt'')
     \<and> params ''Key'' = Some (JStr ''b.txt'')
     \<and> params ''Bucket'' = Some (JStr ''mine'')"
  using copy_request [of "\<lparr>client = answering [Callback (Null, JObj 1)], bucket = ''mine''\<rparr>"
      "''a.txt''" "''b.txt''" "Some [''CopySource'' \<mapsto> JStr ''other/z'']" fresh_world
      "fst (Bucket_copy \<lparr>client = answering [Callback (Null, JObj 1)], bucket = ''mine''\<rparr>
         ''a.txt'' ''b.txt'' (Some [''CopySource'' \<mapsto> JStr ''other/z'']) fresh_world)"
      "fst (snd (Bucket_copy \<lparr>client = answering [Callback (Null, JObj 1)], bucket = ''mine''\<rparr>
         ''a.txt'' ''b.txt'' (Some [''CopySource'' \<mapsto> JStr ''other/z'']) fresh_world))"
      "snd (snd (Bucket_copy \<lparr>client = answering [Callback (Null, JObj 1)], bucket = ''mine''\<rparr>
         ''a.txt'' ''b.txt'' (Some [''CopySource'' \<mapsto> JStr ''other/z'']) fresh_world))"]
  by (simp add: fresh_world_def)

section \<open>\<open>has\<close>: errors become \<open>false\<close>\<close>

lemma new_Promise_has_Rejected:
  "new_Promise (\<lambda>(err, data). resolve (JBool (\<not> truthy err \<and> data \<noteq> Null))) events = Rejected e
     \<longleftrightarrow> (\<exists>rest. events = Throw e # rest)"
proof (cases events)
  case Nil
  then show ?thesis by (simp add: new_Promise_Nil)
next
  case (Cons ev rest)
  then show ?thesis
    by (cases ev) (auto simp: settle_has throw_has)
qed

lemma new_Promise_has_True:
  "new_Promise (\<lambda>(err, data). resolve (JBool (\<not> truthy err \<and> data \<noteq> Null))) events
     = Fulfilled (JBool True) \<Longrightarrow>
   \<exists>err data rest. events = Callback (err, data) # rest \<and> \<not> truthy err \<and> data \<noteq> Null"
proof (cases events)
  case Nil
  assume "new_Promise (\<lambda>(err, data). resolve (JBool (\<not> truthy err \<and> data \<noteq> Null))) events
     = Fulfilled (JBool True)"
  with Nil show ?thesis by (simp add: new_Promise_Nil)
next
  case (Cons ev rest)
  assume "new_Promise (\<lambda>(err, data). resolve (JBool (\<not> truthy err \<and> data \<noteq> Null))) events
     = Fulfilled (JBool True)"
  with Cons show ?thesis
    by (cases ev) (auto simp: settle_has throw_has)
qed

text \<open>
  The claim C1 as it is written, "for every behaviour of the backend client the promise
  of \<open>has\<close> never rejects", fails for a client whose probe throws instead of calling
  back: the exception leaves the executor and the promise is rejected with it.
\<close>

theorem has_rejects_when_client_throws:
  "fst (has (answering [Throw (JObj 500)]) ''mine'' None fresh_world) = Rejected (JObj 500)
   \<and> fst (Bucket_has \<lparr>client = answering [Throw (JObj 500)], bucket = ''mine''\<rparr>
        ''hello.txt'' None fresh_world) = Rejected (JObj 500)"
  by (simp add: has_promise Bucket_has_promise throw_has answering_def)

text \<open>
  C1, amended. The promise of \<open>has\<close> (the exported function and the method) is rejected
  only when the client's probe throws before it has invoked the callback, and then with
  the value thrown; so for every client that answers through its callback, whatever
  invocations it makes, the promise is never rejected. When the callback is invoked with
  an error (a truthy \<open>err\<close>), the promise is fulfilled with \<open>false\<close>; and it is fulfilled
  with \<open>true\<close> only when the callback was invoked with no error and with data other than
  \<open>null\<close>. The event that counts is the first: a promise settles once.
\<close>

theorem has_rejects_only_on_throw:
  "(fst (has cl bkt opts w) = Rejected e \<longleftrightarrow>
      (\<exists>rest. fst (cl headBucket ((default_opts opts)(''Bucket'' \<mapsto> JStr bkt)) (backend w))
         = Throw e # rest))
   \<and> (fst (Bucket_has this key opts w) = Rejected e \<longleftrightarrow>
      (\<exists>rest. fst (client this headObject
         ((default_opts opts)(''Bucket'' \<mapsto> JStr (bucket this), ''Key'' \<mapsto> JStr key)) (backend w))
         = Throw e # rest))
   \<and> ((\<forall>ev \<in> set (fst (cl headBucket ((default_opts opts)(''Bucket'' \<mapsto> JStr bkt)) (backend w))).
          \<exists>args. ev = Callback args) \<longrightarrow>
       fst (has cl bkt opts w) \<noteq> Rejected e)
   \<and> ((\<forall>ev \<in> set (fst (client this headObject
          ((default_opts opts)(''Bucket'' \<mapsto> JStr (bucket this), ''Key'' \<mapsto> JStr key)) (backend w))).
          \<exists>args. ev = Callback args) \<longrightarrow>
       fst (Bucket_has this key opts w) \<noteq> Rejected e)
   \<and> (fst (cl headBucket ((default_opts opts)(''Bucket'' \<mapsto> JStr bkt)) (backend w))
         = Callback (err, data) # rest \<longrightarrow> truthy err \<longrightarrow>
       fst (has cl bkt opts w) = Fulfilled (JBool False))
   \<and> (fst (client this headObject
         ((default_opts opts)(''Bucket'' \<mapsto> JStr (bucket this), ''Key'' \<mapsto> JStr key)) (backend w))
         = Callback (err, data) # rest \<longrightarrow> truthy err \<longrightarrow>
       fst (Bucket_has this key opts w) = Fulfilled (JBool False))
   \<and> (fst (has cl bkt opts w) = Fulfilled (JBool True) \<longrightarrow>
       (\<exists>err' data' rest'.
          fst (cl headBucket ((default_opts opts)(''Bucket'' \<mapsto> JStr bkt)) (backend w))
            = Callback (err', data') # rest' \<and> \<not> truthy err' \<and> data' \<noteq> Null))
   \<and> (fst (Bucket_has this key opts w) = Fulfilled (JBool True) \<longrightarrow>
       (\<exists>err' data' rest'.
          fst (client this headObject
            ((default_opts opts)(''Bucket'' \<mapsto> JStr (bucket this), ''Key'' \<mapsto> JStr key)) (backend w))
            = Callback (err', data') # rest' \<and> \<not> truthy err' \<and> data' \<noteq> Null))"
proof (intro conjI impI)
  show "fst (has cl bkt opts w) = Rejected e \<longleftrightarrow>
      (\<exists>rest. fst (cl headBucket ((default_opts opts)(''Bucket'' \<mapsto> JStr bkt)) (backend w))
         = Throw e # rest)"
    unfolding has_promise by (rule new_Promise_has_Rejected)
  show "fst (Bucket_has this key opts w) = Rejected e \<longleftrightarrow>
      (\<exists>rest. fst (client this headObject
         ((default_opts opts)(''Bucket'' \<mapsto> JStr (bucket this), ''Key'' \<mapsto> JStr key)) (backend w))
         = Throw e # rest)"
    unfolding Bucket_has_promise by (rule new_Promise_has_Rejected)
next
  assume "\<forall>ev \<in> set (fst (cl headBucket ((default_opts opts)(''Bucket'' \<mapsto> JStr bkt)) (backend w))).
          \<exists>args. ev = Callback args"
  then show "fst (has cl bkt opts w) \<noteq> Rejected e"
    unfolding has_promise new_Promise_has_Rejected by auto
next
  assume "\<forall>ev \<in> set (fst (client this headObject
          ((default_opts opts)(''Bucket'' \<mapsto> JStr (bucket this), ''Key'' \<mapsto> JStr key)) (backend w))).
          \<exists>args. ev = Callback args"
  then show "fst (Bucket_has this key opts w) \<noteq> Rejected e"
    unfolding Bucket_has_promise new_Promise_has_Rejected by auto
next
  assume "fst (cl headBucket ((default_opts opts)(''Bucket'' \<mapsto> JStr bkt)) (backend w))
    = Callback (err, data) # rest" and "truthy err"
  then show "fst (has cl bkt opts w) = Fulfilled (JBool False)"
    by (simp add: has_promise settle_has)
next
  assume "fst (client this headObject
      ((default_opts opts)(''Bucket'' \<mapsto> JStr (bucket this), ''Key'' \<mapsto> JStr key)) (backend w))
    = Callback (err, data) # rest" and "truthy err"
  then show "fst (Bucket_has this key opts w) = Fulfilled (JBool False)"
    by (simp add: Bucket_has_promise settle_has)
next
  assume "fst (has cl bkt opts w) = Fulfilled (JBool True)"
  then show "\<exists>err' data' rest'.
      fst (cl headBucket ((default_opts opts)(''Bucket'' \<mapsto> JStr bkt)) (backend w))
        = Callback (err', data') # rest' \<and> \<not> truthy err' \<and> data' \<noteq> Null"
    unfolding has_promise by (rule new_Promise_has_True)
next
  assume "fst (Bucket_has this key opts w) = Fulfilled (JBool True)"
  then show "\<exists>err' data' rest'.
      fst (client this headObject
        ((default_opts opts)(''Bucket'' \<mapsto> JStr (bucket this), ''Key'' \<mapsto> JStr key)) (backend w))
        = Callback (err', data') # rest' \<and> \<not> truthy err' \<and> data' \<noteq> Null"
    unfolding Bucket_has_promise by (rule new_Promise_has_True)
qed

text \<open>
  A backend that answers every probe with the error object \<open>JObj 404\<close>, and one that
  answers with no error and the metadata object \<open>JObj 1\<close>.
\<close>

theorem has_rejects_only_on_throw_witness:
  "fst (has (answering [Callback (JObj 404, Undefined)]) ''mine'' None fresh_world)
     = Fulfilled (JBool False)
   \<and> fst (Bucket_has \<lparr>client = answering [Callback (JObj 404, Undefined)], bucket = ''mine''\<rparr>
        ''missing.txt'' None fresh_world) = Fulfilled (JBool False)
   \<and> fst (has (answering [Callback (JObj 404, Undefined)]) ''mine'' None fresh_world)
     \<noteq> Rejected (JObj 404)
   \<and> fst (Bucket_has \<lparr>client = answering [Callback (JObj 404, Undefined)], bucket = ''mine''\<rparr>
        ''missing.txt'' None fresh_world) \<noteq> Rejected (JObj 404)
   \<and> fst (has (answering [Callback (Null, JObj 1)]) ''mine'' None fresh_world)
     = Fulfilled (JBool True)
   \<and> fst (Bucket_has \<lparr>client = answering [Callback (Null, JObj 1)], bucket = ''mine''\<rparr>
        ''hello.txt'' None fresh_world) = Fulfilled (JBool True)
   \<and> (\<exists>err' data' rest'. fst (answering [Callback (Null, JObj 1)] headBucket
          ((default_opts None)(''Bucket'' \<mapsto> JStr ''mine'')) (backend fresh_world))
        = Callback (err', data') # rest' \<and> \<not> truthy err' \<and> data' \<noteq> Null)"
proof -
  have t: "fst (has (answering [Callback (Null, JObj 1)]) ''mine'' None fresh_world)
      = Fulfilled (JBool True)"
    "fst (Bucket_has \<lparr>client = answering [Callback (Null, JObj 1)], bucket = ''mine''\<rparr>
        ''hello.txt'' None fresh_world) = Fulfilled (JBool True)"
    by (simp_all add: has_promise Bucket_has_promise settle_has answering_def)
  from has_rejects_only_on_throw [where cl = "answering [Callback (JObj 404, Undefined)]"
      and bkt = "''mine''" and opts = None and w = fresh_world and e = "JObj 404"
      and this = "\<lparr>client = answering [Callback (JObj 404, Undefined)], bucket = ''mine''\<rparr>"
      and key = "''missing.txt''" and err = "JObj 404" and data = Undefined and rest = "[]"]
  have f: "fst (has (answering [Callback (JObj 404, Undefined)]) ''mine'' None fresh_world)
        = Fulfilled (JBool False)
      \<and> fst (Bucket_has \<lparr>client = answering [Callback (JObj 404, Undefined)], bucket = ''mine''\<rparr>
        ''missing.txt'' None fresh_world) = Fulfilled (JBool False)
      \<and> fst (has (answering [Callback (JObj 404, Undefined)]) ''mine'' None fresh_world)
        \<noteq> Rejected (JObj 404)
      \<and> fst (Bucket_has \<lparr>client = answering [Callback (JObj 404, Undefined)], bucket = ''mine''\<rparr>
        ''missing.txt'' None fresh_world) \<noteq> Rejected (JObj 404)"
    by (simp add: answering_def)
  from has_rejects_only_on_throw [where cl = "answering [Callback (Null, JObj 1)]"
      and bkt = "''mine''" and opts = None and w = fresh_world
      and this = "\<lparr>client = answering [Callback (Null, JObj 1)], bucket = ''mine''\<rparr>"
      and key = "''hello.txt''"] t(1)
  have "\<exists>err' data' rest'. fst (answering [Callback (Null, JObj 1)] headBucket
          ((default_opts None)(''Bucket'' \<mapsto> JStr ''mine'')) (backend fresh_world))
        = Callback (err', data') # rest' \<and> \<not> truthy err' \<and> data' \<noteq> Null"
    by blast
  with t f show ?thesis by blast
qed

section \<open>Handles, and errors passed through\<close>

lemma create_Fulfilled:
  "fst (create cl bkt opts w) = Fulfilled h \<Longrightarrow> h = \<lparr>client = cl, bucket = bkt\<rparr>"
proof -
  assume f: "fst (create cl bkt opts w) = Fulfilled h"
  show ?thesis
  proof (cases "fst (cl createBucket ((default_opts opts)(''Bucket'' \<mapsto> JStr bkt)) (backend w))")
    case Nil
    with f show ?thesis by (simp add: create_promise new_Promise_Nil)
  next
    case (Cons ev rest)
    with f show ?thesis
      by (cases ev)
         (auto simp: create_promise settle_const throw_const Bucket_constructor_def
            split: if_splits)
  qed
qed

text \<open>
  C4. For every client, container identifier and options: when the callback of the
  create-container call (for \<open>create\<close>) or of the container probe (for \<open>get\<close>) is
  invoked with no error, the promise is fulfilled with a new handle whose client and
  identifier are exactly the arguments; when it is invoked with an error, the promise
  is rejected with that very error value.
\<close>

theorem create_get_handle_or_error:
  "(fst (cl createBucket ((default_opts opts)(''Bucket'' \<mapsto> JStr bkt)) (backend w))
       = Callback (err, data) # rest \<longrightarrow>
     fst (create cl bkt opts w)
       = (if truthy err then Rejected err else Fulfilled \<lparr>client = cl, bucket = bkt\<rparr>))
   \<and> (fst (cl headBucket ((default_opts opts)(''Bucket'' \<mapsto> JStr bkt)) (backend w))
       = Callback (err, data) # rest \<longrightarrow>
     fst (get cl bkt opts w)
       = (if truthy err then Rejected err else Fulfilled \<lparr>client = cl, bucket = bkt\<rparr>))"
  by (simp add: create_promise get_promise settle_const Bucket_constructor_def)

theorem create_get_handle_or_error_witness:
  "fst (create (answering [Callback (Null, Undefined)]) ''my-bucket'' None fresh_world)
     = Fulfilled \<lparr>client = answering [Callback (Null, Undefined)], bucket = ''my-bucket''\<rparr>
   \<and> fst (get (answering [Callback (Null, Undefined)]) ''my-bucket'' None fresh_world)
     = Fulfilled \<lparr>client = answering [Callback (Null, Undefined)], bucket = ''my-bucket''\<rparr>
   \<and> fst (create (answering [Callback (JObj 409, Undefined)]) ''my-bucket'' None fresh_world)
     = Rejected (JObj 409)
   \<and> fst (get (answering [Callback (JObj 409, Undefined)]) ''my-bucket'' None fresh_world)
     = Rejected (JObj 409)"
  using create_get_handle_or_error [where cl = "answering [Callback (Null, Undefined)]"
      and bkt = "''my-bucket''" and opts = None and w = fresh_world
      and err = Null and data = Undefined and rest = "[]"]
    create_get_handle_or_error [where cl = "answering [Callback (JObj 409, Undefined)]"
      and bkt = "''my-bucket''" and opts = None and w = fresh_world
      and err = "JObj 409" and data = Undefined and rest = "[]"]
  by (simp add: answering_def)

text \<open>
  C5. Let \<open>h\<close> be the handle a successful \<open>create\<close> with the identifier \<open>bkt\<close>
  resolved to. Each entry operation on \<open>h\<close> (\<open>location\<close>, \<open>get\<close>, \<open>has\<close>, \<open>head\<close>,
  \<open>put\<close>, \<open>remove\<close>, \<open>copy\<close>), with any arguments and options and in any later world,
  sends one request, whose \<open>Bucket\<close> field is exactly \<open>bkt\<close>.
\<close>

theorem created_handle_injects_identifier:
  "fst (create cl bkt opts w) = Fulfilled h \<Longrightarrow>
   (\<exists>params. sent (snd (snd (Bucket_location h opts' w'))) = sent w' @ [(getBucketLocation, params)]
      \<and> params ''Bucket'' = Some (JStr bkt))
   \<and> (\<exists>params. sent (snd (snd (Bucket_get h key opts' w'))) = sent w' @ [(getObject, params)]
      \<and> params ''Bucket'' = Some (JStr bkt))
   \<and> (\<exists>params. sent (snd (snd (Bucket_has h key opts' w'))) = sent w' @ [(headObject, params)]
      \<and> params ''Bucket'' = Some (JStr bkt))
   \<and> (\<exists>params. sent (snd (snd (Bucket_head h key opts' w'))) = sent w' @ [(headObject, params)]
      \<and> params ''Bucket'' = Some (JStr bkt))
   \<and> (\<exists>params. sent (snd (snd (Bucket_put h key body opts' w'))) = sent w' @ [(putObject, params)]
      \<and> params ''Bucket'' = Some (JStr bkt))
   \<and> (\<exists>params. sent (snd (snd (Bucket_remove h key opts' w'))) = sent w' @ [(deleteObject, params)]
      \<and> params ''Bucket'' = Some (JStr bkt))
   \<and> (\<exists>params. sent (snd (snd (Bucket_copy h source target opts' w'))) = sent w' @ [(copyObject, params)]
      \<and> params ''Bucket'' = Some (JStr bkt))"
proof -
  assume "fst (create cl bkt opts w) = Fulfilled h"
  then have b: "bucket h = bkt"
    by (auto dest: create_Fulfilled)
  show ?thesis
    by (simp add: b [symmetric] Bucket_location_sent Bucket_get_sent Bucket_has_sent
        Bucket_head_sent Bucket_put_sent Bucket_remove_sent Bucket_copy_sent)
qed

theorem created_handle_injects_identifier_witness:
  "fst (create (answering [Callback (Null, Undefined)]) ''my-bucket'' None fresh_world)
     = Fulfilled \<lparr>client = answering [Callback (Null, Undefined)], bucket = ''my-bucket''\<rparr>
   \<and> (\<exists>params. sent (snd (snd (Bucket_put
          \<lparr>client = answering [Callback (Null, Undefined)], bucket = ''my-bucket''\<rparr>
          ''hello.txt'' (JStr ''Hello World!'') (Some [''Bucket'' \<mapsto> JStr ''other''])
          \<lparr>backend = (), sent = [(createBucket, [''Bucket'' \<mapsto> JStr ''my-bucket''])]\<rparr>)))
        = [(createBucket, [''Bucket'' \<mapsto> JStr ''my-bucket'']), (putObject, params)]
      \<and> params ''Bucket'' = Some (JStr ''my-bucket''))"
proof -
  have c: "fst (create (answering [Callback (Null, Undefined)]) ''my-bucket'' None fresh_world)
     = Fulfilled \<lparr>client = answering [Callback (Null, Undefined)], bucket = ''my-bucket''\<rparr>"
    by (simp add: create_promise settle_const answering_def Bucket_constructor_def)
  from created_handle_injects_identifier [OF c, where key = "''hello.txt''"
      and body = "JStr ''Hello World!''" and opts' = "Some [''Bucket'' \<mapsto> JStr ''other'']"
      and w' = "\<lparr>backend = (), sent = [(createBucket, [''Bucket'' \<mapsto> JStr ''my-bucket''])]\<rparr>"]
  show ?thesis using c by simp
qed

text \<open>
  C6. For each operation that propagates errors (\<open>location\<close>, the methods \<open>get\<close>,
  \<open>head\<close>, \<open>put\<close>, \<open>remove\<close>, \<open>copy\<close>, and the functions \<open>create\<close>, \<open>get\<close>, \<open>remove\<close>):
  when the callback is invoked with an error \<open>err\<close>, the promise is rejected with
  \<open>err\<close> itself; and the operation sends exactly one request, so nothing is retried.
\<close>

theorem backend_error_passes_through:
  "truthy err \<Longrightarrow>
   (fst (client this getBucketLocation
        ((default_opts opts)(''Bucket'' \<mapsto> JStr (bucket this))) (backend w)) = Callback (err, data) # rest
      \<longrightarrow> fst (Bucket_location this opts w) = Rejected err)
   \<and> (fst (client this getObject
        ((default_opts opts)(''Bucket'' \<mapsto> JStr (bucket this), ''Key'' \<mapsto> JStr key)) (backend w))
        = Callback (err, data) # rest
      \<longrightarrow> fst (Bucket_get this key opts w) = Rejected err)
   \<and> (fst (client this headObject
        ((default_opts opts)(''Bucket'' \<mapsto> JStr (bucket this), ''Key'' \<mapsto> JStr key)) (backend w))
        = Callback (err, data) # rest
      \<longrightarrow> fst (Bucket_head this key opts w) = Rejected err)
   \<and> (fst (client this putObject
        ((default_opts opts)(''Bucket'' \<mapsto> JStr (bucket this), ''Key'' \<mapsto> JStr key,
           ''Body'' \<mapsto> body)) (backend w)) = Callback (err, data) # rest
      \<longrightarrow> fst (Bucket_put this key body opts w) = Rejected err)
   \<and> (fst (client this deleteObject
        ((default_opts opts)(''Bucket'' \<mapsto> JStr (bucket this), ''Key'' \<mapsto> JStr key)) (backend w))
        = Callback (err, data) # rest
      \<longrightarrow> fst (Bucket_remove this key opts w) = Rejected err)
   \<and> (fst (client this copyObject
        ((default_opts opts)(''Bucket'' \<mapsto> JStr (bucket this), ''Key'' \<mapsto> JStr target,
           ''CopySource'' \<mapsto> JStr (bucket this @ ''/'' @ source))) (backend w)) = Callback (err, data) # rest
      \<longrightarrow> fst (Bucket_copy this source target opts w) = Rejected err)
   \<and> (fst (cl createBucket ((default_opts opts)(''Bucket'' \<mapsto> JStr bkt)) (backend w))
        = Callback (err, data) # rest
      \<longrightarrow> fst (create cl bkt opts w) = Rejected err)
   \<and> (fst (cl headBucket ((default_opts opts)(''Bucket'' \<mapsto> JStr bkt)) (backend w))
        = Callback (err, data) # rest
      \<longrightarrow> fst (get cl bkt opts w) = Rejected err)
   \<and> (fst (cl deleteBucket ((default_opts opts)(''Bucket'' \<mapsto> JStr bkt)) (backend w))
        = Callback (err, data) # rest
      \<longrightarrow> fst (remove cl bkt opts w) = Rejected err)
   \<and> length (sent (snd (snd (Bucket_location this opts w)))) = Suc (length (sent w))
   \<and> length (sent (snd (snd (Bucket_get this key opts w)))) = Suc (length (sent w))
   \<and> length (sent (snd (snd (Bucket_head this key opts w)))) = Suc (length (sent w))
   \<and> length (sent (snd (snd (Bucket_put this key body opts w)))) = Suc (length (sent w))
   \<and> length (sent (snd (snd (Bucket_remove this key opts w)))) = Suc (length (sent w))
   \<and> length (sent (snd (snd (Bucket_copy this source target opts w)))) = Suc (length (sent w))
   \<and> length (sent (snd (create cl bkt opts w))) = Suc (length (sent w))
   \<and> length (sent (snd (get cl bkt opts w))) = Suc (length (sent w))
   \<and> length (sent (snd (remove cl bkt opts w))) = Suc (length (sent w))"
  by (simp add: Bucket_location_promise Bucket_get_promise Bucket_head_promise
      Bucket_put_promise Bucket_remove_promise Bucket_copy_promise create_promise get_promise
      remove_promise settle_data settle_const
      Bucket_location_sent Bucket_get_sent Bucket_head_sent Bucket_put_sent Bucket_remove_sent
      Bucket_copy_sent create_sent get_sent remove_sent)

theorem backend_error_passes_through_witness:
  "truthy (JObj 500)
   \<and> fst (Bucket_location \<lparr>client = answering [Callback (JObj 500, Null)], bucket = ''mine''\<rparr>
        None fresh_world) = Rejected (JObj 500)
   \<and> fst (Bucket_get \<lparr>client = answering [Callback (JObj 500, Null)], bucket = ''mine''\<rparr>
        ''a.txt'' None fresh_world) = Rejected (JObj 500)
   \<and> fst (Bucket_head \<lparr>client = answering [Callback (JObj 500, Null)], bucket = ''mine''\<rparr>
        ''a.txt'' None fresh_world) = Rejected (JObj 500)
   \<and> fst (Bucket_put \<lparr>client = answering [Callback (JObj 500, Null)], bucket = ''mine''\<rparr>
        ''a.txt'' (JStr ''Hello World!'') None fresh_world) = Rejected (JObj 500)
   \<and> fst (Bucket_remove \<lparr>client = answering [Callback (JObj 500, Null)], bucket = ''mine''\<rparr>
        ''a.txt'' None fresh_world) = Rejected (JObj 500)
   \<and> fst (Bucket_copy \<lparr>client = answering [Callback (JObj 500, Null)], bucket = ''mine''\<rparr>
        ''a.txt'' ''b.txt'' None fresh_world) = Rejected (JObj 500)
   \<and> fst (create (answering [Callback (JObj 500, Null)]) ''mine'' None fresh_world) = Rejected (JObj 500)
   \<and> fst (get (answering [Callback (JObj 500, Null)]) ''mine'' None fresh_world) = Rejected (JObj 500)
   \<and> fst (remove (answering [Callback (JObj 500, Null)]) ''mine'' None fresh_world) = Rejected (JObj 500)"
  using backend_error_passes_through [where err = "JObj 500" and data = Null and rest = "[]"
      and this = "\<lparr>client = answering [Callback (JObj 500, Null)], bucket = ''mine''\<rparr>"
      and cl = "answering [Callback (JObj 500, Null)]" and bkt = "''mine''" and opts = None
      and w = fresh_world and key = "''a.txt''" and body = "JStr ''Hello World!''"
      and source = "''a.txt''" and target = "''b.txt''"]
  by (simp add: answering_def)

section \<open>Results without a value, the body of \<open>put\<close>, and the handle's state\<close>

text \<open>
  C7. For every key and options, the method \<open>remove\<close> and the function \<open>remove\<close>
  resolve with no value (\<open>undefined\<close>) when the callback is invoked with no error,
  whatever data the backend passes along.
\<close>

theorem remove_resolves_with_no_value:
  "\<not> truthy err \<Longrightarrow>
   (fst (client this deleteObject
        ((default_opts opts)(''Bucket'' \<mapsto> JStr (bucket this), ''Key'' \<mapsto> JStr key)) (backend w))
        = Callback (err, data) # rest
      \<longrightarrow> fst (Bucket_remove this key opts w) = Fulfilled Undefined)
   \<and> (fst (cl deleteBucket ((default_opts opts)(''Bucket'' \<mapsto> JStr bkt)) (backend w))
        = Callback (err, data) # rest
      \<longrightarrow> fst (remove cl bkt opts w) = Fulfilled Undefined)"
  by (simp add: Bucket_remove_promise remove_promise settle_const)

theorem remove_resolves_with_no_value_witness:
  "\<not> truthy Null
   \<and> fst (Bucket_remove \<lparr>client = answering [Callback (Null, JObj 1)], bucket = ''mine''\<rparr>
        ''x.txt'' None fresh_world) = Fulfilled Undefined
   \<and> fst (remove (answering [Callback (Null, JObj 1)]) ''mine'' None fresh_world) = Fulfilled Undefined"
  using remove_resolves_with_no_value [where err = Null and data = "JObj 1" and rest = "[]"
      and this = "\<lparr>client = answering [Callback (Null, JObj 1)], bucket = ''mine''\<rparr>"
      and key = "''x.txt''" and opts = None and w = fresh_world
      and cl = "answering [Callback (Null, JObj 1)]" and bkt = "''mine''"]
  by (simp add: answering_def)

text \<open>
  C10. For the function \<open>has\<close> and the method \<open>has\<close>: when the callback is invoked
  with no error and with \<open>undefined\<close> (absent) data, the promise resolves to \<open>true\<close>;
  the test \<open>data !== null\<close> lets \<open>undefined\<close> through.
\<close>

theorem has_true_on_undefined_data:
  "\<not> truthy err \<Longrightarrow>
   (fst (cl headBucket ((default_opts opts)(''Bucket'' \<mapsto> JStr bkt)) (backend w))
        = Callback (err, Undefined) # rest
      \<longrightarrow> fst (has cl bkt opts w) = Fulfilled (JBool True))
   \<and> (fst (client this headObject
        ((default_opts opts)(''Bucket'' \<mapsto> JStr (bucket this), ''Key'' \<mapsto> JStr key)) (backend w))
        = Callback (err, Undefined) # rest
      \<longrightarrow> fst (Bucket_has this key opts w) = Fulfilled (JBool True))"
  by (simp add: has_promise Bucket_has_promise settle_has)

theorem has_true_on_undefined_data_witness:
  "\<not> truthy Null
   \<and> fst (has (answering [Callback (Null, Undefined)]) ''mine'' None fresh_world) = Fulfilled (JBool True)
   \<and> fst (Bucket_has \<lparr>client = answering [Callback (Null, Undefined)], bucket = ''mine''\<rparr>
        ''x.txt'' None fresh_world) = Fulfilled (JBool True)"
  using has_true_on_undefined_data [where err = Null and rest = "[]"
      and this = "\<lparr>client = answering [Callback (Null, Undefined)], bucket = ''mine''\<rparr>"
      and key = "''x.txt''" and opts = None and w = fresh_world
      and cl = "answering [Callback (Null, Undefined)]" and bkt = "''mine''"]
  by (simp add: answering_def)

text \<open>
  C9. For every \<open>put(key, body, opts)\<close> the \<open>Body\<close> field of the store-entry request
  is the \<open>body\<close> argument, also when \<open>opts\<close> has a \<open>Body\<close> field of its own.
\<close>

theorem put_body_argument_wins:
  "\<exists>params. sent (snd (snd (Bucket_put this key body opts w))) = sent w @ [(putObject, params)]
     \<and> params ''Body'' = Some body"
  by (simp add: Bucket_put_sent)

theorem put_body_argument_wins_witness:
  "\<exists>params. sent (snd (snd (Bucket_put \<lparr>client = answering [Callback (Null, JObj 1)], bucket = ''mine''\<rparr>
       ''hello.txt'' (JStr ''Hello World!'') (Some [''Body'' \<mapsto> JStr ''from the options''])
       fresh_world))) = [(putObject, params)]
     \<and> params ''Body'' = Some (JStr ''Hello World!'')"
  using put_body_argument_wins [where this = "\<lparr>client = answering [Callback (Null, JObj 1)], bucket = ''mine''\<rparr>"
      and key = "''hello.txt''" and body = "JStr ''Hello World!''"
      and opts = "Some [''Body'' \<mapsto> JStr ''from the options'']" and w = fresh_world]
  by (simp add: fresh_world_def)

text \<open>
  C8. No entry operation changes its receiver: the handle after the call is the handle
  before it, client and identifier alike. And the request is built from the bound
  identifier, the arguments and the options alone: two handles with the same
  identifier, whatever their clients and whatever the worlds they run in, send the same
  request.
\<close>

theorem handle_never_mutated:
  "fst (snd (Bucket_location this opts w)) = this
   \<and> fst (snd (Bucket_get this key opts w)) = this
   \<and> fst (snd (Bucket_has this key opts w)) = this
   \<and> fst (snd (Bucket_head this key opts w)) = this
   \<and> fst (snd (Bucket_put this key body opts w)) = this
   \<and> fst (snd (Bucket_remove this key opts w)) = this
   \<and> fst (snd (Bucket_copy this source target opts w)) = this
   \<and> (bucket that = bucket this \<longrightarrow>
        (\<exists>params. sent (snd (snd (Bucket_location this opts w))) = sent w @ [(getBucketLocation, params)]
           \<and> sent (snd (snd (Bucket_location that opts w'))) = sent w' @ [(getBucketLocation, params)])
      \<and> (\<exists>params. sent (snd (snd (Bucket_get this key opts w))) = sent w @ [(getObject, params)]
           \<and> sent (snd (snd (Bucket_get that key opts w'))) = sent w' @ [(getObject, params)])
      \<and> (\<exists>params. sent (snd (snd (Bucket_has this key opts w))) = sent w @ [(headObject, params)]
           \<and> sent (snd (snd (Bucket_has that key opts w'))) = sent w' @ [(headObject, params)])
      \<and> (\<exists>params. sent (snd (snd (Bucket_head this key opts w))) = sent w @ [(headObject, params)]
           \<and> sent (snd (snd (Bucket_head that key opts w'))) = sent w' @ [(headObject, params)])
      \<and> (\<exists>params. sent (snd (snd (Bucket_put this key body opts w))) = sent w @ [(putObject, params)]
           \<and> sent (snd (snd (Bucket_put that key body opts w'))) = sent w' @ [(putObject, params)])
      \<and> (\<exists>params. sent (snd (snd (Bucket_remove this key opts w))) = sent w @ [(deleteObject, params)]
           \<and> sent (snd (snd (Bucket_remove that key opts w'))) = sent w' @ [(deleteObject, params)])
      \<and> (\<exists>params. sent (snd (snd (Bucket_copy this source target opts w))) = sent w @ [(copyObject, params)]
           \<and> sent (snd (snd (Bucket_copy that source target opts w'))) = sent w' @ [(copyObject, params)]))"
  by (simp add: Bucket_receiver Bucket_location_sent Bucket_get_sent Bucket_has_sent
      Bucket_head_sent Bucket_put_sent Bucket_remove_sent Bucket_copy_sent)

theorem handle_never_mutated_witness:
  "fst (snd (Bucket_put \<lparr>client = answering [Callback (Null, JObj 1)], bucket = ''mine''\<rparr>
       ''hello.txt'' (JStr ''Hello World!'') None fresh_world))
     = \<lparr>client = answering [Callback (Null, JObj 1)], bucket = ''mine''\<rparr>
   \<and> bucket \<lparr>client = answering [Callback (JObj 500, Undefined)], bucket = ''mine''\<rparr>
     = bucket \<lparr>client = answering [Callback (Null, JObj 1)], bucket = ''mine''\<rparr>
   \<and> (\<exists>params.
        sent (snd (snd (Bucket_put \<lparr>client = answering [Callback (Null, JObj 1)], bucket = ''mine''\<rparr>
          ''hello.txt'' (JStr ''Hello World!'') None fresh_world))) = [(putObject, params)]
      \<and> sent (snd (snd (Bucket_put \<lparr>client = answering [Callback (JObj 500, Undefined)], bucket = ''mine''\<rparr>
          ''hello.txt'' (JStr ''Hello World!'') None
          \<lparr>backend = (), sent = [(headBucket, [''Bucket'' \<mapsto> JStr ''mine''])]\<rparr>)))
        = [(headBucket, [''Bucket'' \<mapsto> JStr ''mine'']), (putObject, params)])"
  using handle_never_mutated [where this = "\<lparr>client = answering [Callback (Null, JObj 1)], bucket = ''mine''\<rparr>"
      and that = "\<lparr>client = answering [Callback (JObj 500, Undefined)], bucket = ''mine''\<rparr>"
      and key = "''hello.txt''" and body = "JStr ''Hello World!''" and opts = None
      and w = fresh_world
      and w' = "\<lparr>backend = (), sent = [(headBucket, [''Bucket'' \<mapsto> JStr ''mine''])]\<rparr>"]
  by (simp add: fresh_world_def)

section \<open>Merging the options into the request\<close>

text \<open>
  C2. Every operation sends one request, built from the caller's options (the empty
  object when omitted) with the \<open>Bucket\<close> field written after them: the argument
  \<open>bkt\<close> for the exported functions, the bound identifier for the methods. For the
  four exported functions and for \<open>location\<close> the request is exactly the options with
  \<open>Bucket\<close> overwritten. The methods that take a key also write, after the options,
  the fields they build from their arguments (\<open>Key\<close>; \<open>Body\<close> for \<open>put\<close>; \<open>CopySource\<close>
  for \<open>copy\<close>); every other field, the unrelated ones, is as in the options. The example
  of options \<open>{Bucket: "other", Foo: 1}\<close> on a handle for \<open>mine\<close> follows the theorem.
\<close>

theorem options_merged_under_identifier:
  "sent (snd (create cl bkt opts w))
     = sent w @ [(createBucket, (default_opts opts)(''Bucket'' \<mapsto> JStr bkt))]
   \<and> sent (snd (get cl bkt opts w))
     = sent w @ [(headBucket, (default_opts opts)(''Bucket'' \<mapsto> JStr bkt))]
   \<and> sent (snd (has cl bkt opts w))
     = sent w @ [(headBucket, (default_opts opts)(''Bucket'' \<mapsto> JStr bkt))]
   \<and> sent (snd (remove cl bkt opts w))
     = sent w @ [(deleteBucket, (default_opts opts)(''Bucket'' \<mapsto> JStr bkt))]
   \<and> sent (snd (snd (Bucket_location this opts w)))
     = sent w @ [(getBucketLocation, (default_opts opts)(''Bucket'' \<mapsto> JStr (bucket this)))]
   \<and> (\<exists>params. sent (snd (snd (Bucket_get this key opts w))) = sent w @ [(getObject, params)]
        \<and> params ''Bucket'' = Some (JStr (bucket this))
        \<and> (\<forall>f. f \<noteq> ''Bucket'' \<longrightarrow> f \<noteq> ''Key'' \<longrightarrow> params f = default_opts opts f))
   \<and> (\<exists>params. sent (snd (snd (Bucket_has this key opts w))) = sent w @ [(headObject, params)]
        \<and> params ''Bucket'' = Some (JStr (bucket this))
        \<and> (\<forall>f. f \<noteq> ''Bucket'' \<longrightarrow> f \<noteq> ''Key'' \<longrightarrow> params f = default_opts opts f))
   \<and> (\<exists>params. sent (snd (snd (Bucket_head this key opts w))) = sent w @ [(headObject, params)]
        \<and> params ''Bucket'' = Some (JStr (bucket this))
        \<and> (\<forall>f. f \<noteq> ''Bucket'' \<longrightarrow> f \<noteq> ''Key'' \<longrightarrow> params f = default_opts opts f))
   \<and> (\<exists>params. sent (snd (snd (Bucket_remove this key opts w))) = sent w @ [(deleteObject, params)]
        \<and> params ''Bucket'' = Some (JStr (bucket this))
        \<and> (\<forall>f. f \<noteq> ''Bucket'' \<longrightarrow> f \<noteq> ''Key'' \<longrightarrow> params f = default_opts opts f))
   \<and> (\<exists>params. sent (snd (snd (Bucket_put this key body opts w))) = sent w @ [(putObject, params)]
        \<and> params ''Bucket'' = Some (JStr (bucket this))
        \<and> (\<forall>f. f \<noteq> ''Bucket'' \<longrightarrow> f \<noteq> ''Key'' \<longrightarrow> f \<noteq> ''Body'' \<longrightarrow>
              params f = default_opts opts f))
   \<and> (\<exists>params. sent (snd (snd (Bucket_copy this source target opts w))) = sent w @ [(copyObject, params)]
        \<and> params ''Bucket'' = Some (JStr (bucket this))
        \<and> (\<forall>f. f \<noteq> ''Bucket'' \<longrightarrow> f \<noteq> ''Key'' \<longrightarrow> f \<noteq> ''CopySource'' \<longrightarrow>
              params f = default_opts opts f))"
  by (simp add: create_sent get_sent has_sent remove_sent Bucket_location_sent Bucket_get_sent
      Bucket_has_sent Bucket_head_sent Bucket_remove_sent Bucket_put_sent Bucket_copy_sent)

theorem options_merged_under_identifier_witness:
  "(\<exists>params. sent (snd (snd (Bucket_location \<lparr>client = answering [Callback (Null, JObj 1)], bucket = ''mine''\<rparr>
          (Some [''Bucket'' \<mapsto> JStr ''other'', ''Foo'' \<mapsto> JNum 1]) fresh_world)))
          = [(getBucketLocation, params)]
        \<and> params ''Bucket'' = Some (JStr ''mine'') \<and> params ''Foo'' = Some (JNum 1))
   \<and> (\<exists>params. sent (snd (snd (Bucket_get \<lparr>client = answering [Callback (Null, JObj 1)], bucket = ''mine''\<rparr>
          ''a.txt'' (Some [''Bucket'' \<mapsto> JStr ''other'', ''Foo'' \<mapsto> JNum 1]) fresh_world)))
          = [(getObject, params)]
        \<and> params ''Bucket'' = Some (JStr ''mine'') \<and> params ''Foo'' = Some (JNum 1))
   \<and> (\<exists>params. sent (snd (snd (Bucket_has \<lparr>client = answering [Callback (Null, JObj 1)], bucket = ''mine''\<rparr>
          ''a.txt'' (Some [''Bucket'' \<mapsto> JStr ''other'', ''Foo'' \<mapsto> JNum 1]) fresh_world)))
          = [(headObject, params)]
        \<and> params ''Bucket'' = Some (JStr ''mine'') \<and> params ''Foo'' = Some (JNum 1))
   \<and> (\<exists>params. sent (snd (snd (Bucket_head \<lparr>client = answering [Callback (Null, JObj 1)], bucket = ''mine''\<rparr>
          ''a.txt'' (Some [''Bucket'' \<mapsto> JStr ''other'', ''Foo'' \<mapsto> JNum 1]) fresh_world)))
          = [(headObject, params)]
        \<and> params ''Bucket'' = Some (JStr ''mine'') \<and> params ''Foo'' = Some (JNum 1))
   \<and> (\<exists>params. sent (snd (snd (Bucket_remove \<lparr>client = answering [Callback (Null, JObj 1)], bucket = ''mine''\<rparr>
          ''a.txt'' (Some [''Bucket'' \<mapsto> JStr ''other'', ''Foo'' \<mapsto> JNum 1]) fresh_world)))
          = [(deleteObject, params)]
        \<and> params ''Bucket'' = Some (JStr ''mine'') \<and> params ''Foo'' = Some (JNum 1))
   \<and> (\<exists>params. sent (snd (snd (Bucket_put \<lparr>client = answering [Callback (Null, JObj 1)], bucket = ''mine''\<rparr>
          ''a.txt'' (JStr ''Hello World!'')
          (Some [''Bucket'' \<mapsto> JStr ''other'', ''Foo'' \<mapsto> JNum 1]) fresh_world)))
          = [(putObject, params)]
        \<and> params ''Bucket'' = Some (JStr ''mine'') \<and> params ''Foo'' = Some (JNum 1))
   \<and> (\<exists>params. sent (snd (snd (Bucket_copy \<lparr>client = answering [Callback (Null, JObj 1)], bucket = ''mine''\<rparr>
          ''a.txt'' ''b.txt''
          (Some [''Bucket'' \<mapsto> JStr ''other'', ''Foo'' \<mapsto> JNum 1]) fresh_world)))
          = [(copyObject, params)]
        \<and> params ''Bucket'' = Some (JStr ''mine'') \<and> params ''Foo'' = Some (JNum 1))"
  using options_merged_under_identifier
      [where this = "\<lparr>client = answering [Callback (Null, JObj 1)], bucket = ''mine''\<rparr>"
        and opts = "Some [''Bucket'' \<mapsto> JStr ''other'', ''Foo'' \<mapsto> JNum 1]"
        and w = fresh_world and key = "''a.txt''" and body = "JStr ''Hello World!''"
        and source = "''a.txt''" and target = "''b.txt''"]
  by (simp add: fresh_world_def default_opts_def Bucket_location_sent Bucket_get_sent
      Bucket_has_sent Bucket_head_sent Bucket_remove_sent Bucket_put_sent Bucket_copy_sent)

end
